theory Spec2Isabelle
  imports Complex_Main
begin

section \<open>Diffusion kurtosis imaging: \<open>dipy/reconst/dki.py\<close>\<close>

text \<open>
  The module is embedded function by function. A one-dimensional array is modelled by
  a list, a two-dimensional array by a list of rows. A finite NumPy \<open>float64\<close> is
  modelled by a \<^typ>\<open>real\<close>: rounding, overflow and underflow are not modelled, and
  zero has no sign. In the elliptic integrals and in the coefficient functions built
  on them, a \<open>float64\<close> is a value of the type \<open>np_float\<close> below, which adds \<open>inf\<close>,
  \<open>-inf\<close> and \<open>nan\<close> to the reals: there a division by zero and the square root of a
  negative number give what NumPy gives (with a \<open>RuntimeWarning\<close>, which is not an
  exception). In the least-squares fits and in \<open>C2222\<close> and \<open>C2233\<close> division is
  that of the reals; a zero divisor is outside the model there.
\<close>

subsection \<open>Outcomes of a call\<close>

text \<open>
  A call either raises a Python exception, returns a value, or (for the two \<open>while\<close>
  loops of the module) does not return. \<open>DomainError\<close> is the name the specification
  uses for a rejected argument of an elliptic integral; no statement of the module
  constructs it.
\<close>

datatype error =
    ValueError string
  | TypeError
  | IndexError
  | KeyError
  | DomainError

type_synonym 'a result = "(error + 'a) option"

definition returns :: "'a \<Rightarrow> 'a result" where
  "returns v = Some (Inr v)"

definition raises :: "error \<Rightarrow> 'a result" where
  "raises e = Some (Inl e)"

definition diverges :: "'a result" where
  "diverges = None"

fun bind :: "'a result \<Rightarrow> ('a \<Rightarrow> 'b result) \<Rightarrow> 'b result" where
  "bind None f = None"
| "bind (Some (Inl e)) f = Some (Inl e)"
| "bind (Some (Inr v)) f = f v"

fun did_return :: "'a result \<Rightarrow> bool" where
  "did_return (Some (Inr v)) = True"
| "did_return r = False"

text \<open>\<open>xs[i]\<close> for a non-negative index: \<open>IndexError\<close> past the end.\<close>

definition item :: "'a list \<Rightarrow> nat \<Rightarrow> 'a result" where
  "item xs i = (if i < length xs then returns (xs ! i) else raises IndexError)"

text \<open>A \<open>for\<close> loop that collects one value per element and stops at the first failure.\<close>

fun for_each :: "('a \<Rightarrow> 'b result) \<Rightarrow> 'a list \<Rightarrow> 'b list result" where
  "for_each f [] = returns []"
| "for_each f (x # xs) = bind (f x) (\<lambda>y. bind (for_each f xs) (\<lambda>ys. returns (y # ys)))"

subsection \<open>The dense kurtosis tensor: \<open>Wcons\<close>\<close>

type_synonym tensor4 = "real list list list list"

text \<open>
  The dictionary literal \<open>indep_ele\<close> of \<open>Wcons\<close>, in the order of the source. Every one
  of its fifteen values is \<open>k_elements[0]\<close>.
\<close>

definition indep_ele :: "real \<Rightarrow> (nat \<times> real) list" where
  "indep_ele k0 =
     [(1, k0), (16, k0), (81, k0), (2, k0), (3, k0), (8, k0), (24, k0), (27, k0),
      (54, k0), (4, k0), (9, k0), (36, k0), (6, k0), (12, k0), (18, k0)]"

text \<open>\<open>indep_ele[key]\<close>: a missing key raises \<open>KeyError\<close>.\<close>

definition lookup :: "(nat \<times> real) list \<Rightarrow> nat \<Rightarrow> real result" where
  "lookup d key = (case map_of d key of None \<Rightarrow> raises KeyError | Some v \<Rightarrow> returns v)"

definition xyz :: "nat list" where
  "xyz = [0, 1, 2]"

text \<open>
  \<open>Wcons(k_elements)\<close>: the dictionary is built first, reading \<open>k_elements[0]\<close>; the four
  nested loops then store \<open>indep_ele[(i+1)*(j+1)*(k+1)*(l+1)]\<close> at \<open>W[i][j][k][l]\<close>.
  Each cell of the zero-initialised \<open>W\<close> is written exactly once, so the loops are the
  nested collection below.
\<close>

definition Wcons :: "real list \<Rightarrow> tensor4 result" where
  "Wcons k_elements =
     bind (item k_elements 0) (\<lambda>k0.
       for_each (\<lambda>ind_i.
         for_each (\<lambda>ind_j.
           for_each (\<lambda>ind_k.
             for_each (\<lambda>ind_l.
               lookup (indep_ele k0) ((ind_i + 1) * (ind_j + 1) * (ind_k + 1) * (ind_l + 1)))
             xyz) xyz) xyz) xyz)"

text \<open>Reading \<open>W[i][j][k][l]\<close>.\<close>

definition entry :: "tensor4 \<Rightarrow> nat \<Rightarrow> nat \<Rightarrow> nat \<Rightarrow> nat \<Rightarrow> real result" where
  "entry W i j k l =
     bind (item W i) (\<lambda>Wi. bind (item Wi j) (\<lambda>Wij. bind (item Wij k) (\<lambda>Wijk. item Wijk l)))"

text \<open>
  The fifteen index quadruples, one per symmetry class, in the order of the fifteen
  components (the default \<open>inds\<close> of \<open>Wrotate\<close>).
\<close>

definition default_inds :: "nat list list" where
  "default_inds =
     [[0, 0, 0, 0], [1, 1, 1, 1], [2, 2, 2, 2],
      [0, 0, 0, 1], [0, 0, 0, 2], [0, 1, 1, 1],
      [1, 1, 1, 2], [0, 2, 2, 2], [1, 2, 2, 2],
      [0, 0, 1, 1], [0, 0, 2, 2], [1, 1, 2, 2],
      [0, 0, 1, 2], [0, 1, 1, 2], [0, 1, 2, 2]]"

text \<open>Expanding and reading back the representative entry of every class.\<close>

definition read_back :: "real list \<Rightarrow> real list result" where
  "read_back kt =
     bind (Wcons kt) (\<lambda>W.
       for_each (\<lambda>q. entry W (q ! 0) (q ! 1) (q ! 2) (q ! 3)) default_inds)"

subsection \<open>Rotation of the kurtosis tensor: \<open>_Wrotate_element\<close> and \<open>Wrotate\<close>\<close>

type_synonym mat = "real list list"

text \<open>
  \<open>np.zeros(n)\<close> and \<open>np.zeros(n, d)\<close>: the second positional parameter of \<open>np.zeros\<close>
  is the dtype. An \<open>int\<close> object is not a dtype, and NumPy raises \<open>TypeError\<close>.
\<close>

datatype dtype_arg = Default_dtype | Int_object int

definition np_zeros :: "nat \<Rightarrow> dtype_arg \<Rightarrow> real list result" where
  "np_zeros n d =
     (case d of Default_dtype \<Rightarrow> returns (replicate n 0) | Int_object k \<Rightarrow> raises TypeError)"

text \<open>
  \<open>range(a)\<close>: the argument must be an integer. An array (or a list) of index
  quadruples is not one, and \<open>range\<close> raises \<open>TypeError\<close>.
\<close>

datatype range_arg = Int_arg int | Array_arg "nat list list"

definition py_range :: "range_arg \<Rightarrow> nat list result" where
  "py_range a =
     (case a of Int_arg n \<Rightarrow> returns [0..<nat n] | Array_arg xs \<Rightarrow> raises TypeError)"

text \<open>
  The accumulator \<open>Wre\<close> of \<open>_Wrotate_element\<close> starts as the scalar \<open>0\<close>; adding a row
  of \<open>Basis\<close> to it makes it a one-dimensional array.
\<close>

datatype ndvalue = Scalar real | Vector "real list"

fun nd_add :: "ndvalue \<Rightarrow> ndvalue \<Rightarrow> ndvalue result" where
  "nd_add (Scalar a) (Scalar b) = returns (Scalar (a + b))"
| "nd_add (Scalar a) (Vector v) = returns (Vector (map (\<lambda>x. a + x) v))"
| "nd_add (Vector u) (Scalar b) = returns (Vector (map (\<lambda>x. x + b) u))"
| "nd_add (Vector u) (Vector v) =
     (if length u = length v then returns (Vector (map2 (+) u v))
      else raises (ValueError ''operands could not be broadcast together''))"

text \<open>
  \<open>xs * b\<close> for a list \<open>xs\<close> and a float \<open>b\<close>: a list can only be repeated an integer
  number of times, and the product raises \<open>TypeError\<close>.
\<close>

definition list_times_float :: "nat list \<Rightarrow> real \<Rightarrow> real result" where
  "list_times_float xs b = raises TypeError"

text \<open>
  One pass through the body of the four nested loops of \<open>_Wrotate_element\<close>. The
  source breaks the line after \<open>Basis[ind_k]\<close>: the assignment ends there, so the
  whole row \<open>Basis[ind_k]\<close> is a factor. The next line is an expression statement,
  \<open>[kl] * Basis[ind_l][ll] * W4D[ind_i][ind_j][ind_k][ind_l]\<close>: its first product
  multiplies the list \<open>[kl]\<close> by a float and raises \<open>TypeError\<close>, before \<open>W4D\<close> is read.
\<close>

definition Wrotate_element_body ::
  "tensor4 \<Rightarrow> nat \<Rightarrow> nat \<Rightarrow> nat \<Rightarrow> nat \<Rightarrow> mat \<Rightarrow> ndvalue \<Rightarrow> nat \<times> nat \<times> nat \<times> nat
     \<Rightarrow> ndvalue result" where
  "Wrotate_element_body W4D ind_i ind_j ind_k ind_l Basis Wre q =
     (case q of (il, jl, kl, ll) \<Rightarrow>
        bind (item Basis ind_i) (\<lambda>Bi. bind (item Bi il) (\<lambda>bi.
        bind (item Basis ind_j) (\<lambda>Bj. bind (item Bj jl) (\<lambda>bj.
        bind (item Basis ind_k) (\<lambda>Bk.
        bind (nd_add Wre (Vector (map (\<lambda>x. bi * bj * x) Bk))) (\<lambda>Wre'.
        bind (item Basis ind_l) (\<lambda>Bl. bind (item Bl ll) (\<lambda>bl.
        bind (list_times_float [kl] bl) (\<lambda>p.
        bind (entry W4D ind_i ind_j ind_k ind_l) (\<lambda>w.
        returns Wre')))))))))))"

text \<open>A loop that threads an accumulator and stops at the first failure.\<close>

fun for_acc :: "('s \<Rightarrow> 'a \<Rightarrow> 's result) \<Rightarrow> 's \<Rightarrow> 'a list \<Rightarrow> 's result" where
  "for_acc f s [] = returns s"
| "for_acc f s (x # xs) = bind (f s x) (\<lambda>s'. for_acc f s' xs)"

definition range3 :: "nat list" where
  "range3 = [0, 1, 2]"

definition Wrotate_element ::
  "tensor4 \<Rightarrow> nat \<Rightarrow> nat \<Rightarrow> nat \<Rightarrow> nat \<Rightarrow> mat \<Rightarrow> ndvalue result" where
  "Wrotate_element W4D ind_i ind_j ind_k ind_l Basis =
     for_acc (Wrotate_element_body W4D ind_i ind_j ind_k ind_l Basis) (Scalar 0)
       (concat (map (\<lambda>il. concat (map (\<lambda>jl. concat (map (\<lambda>kl.
          map (\<lambda>ll. (il, jl, kl, ll)) range3) range3)) range3)) range3))"

text \<open>
  \<open>Wrot[e] = v\<close>: a scalar (or an array of one element) is stored; a longer array
  cannot be stored in one cell.
\<close>

definition store :: "real list \<Rightarrow> nat \<Rightarrow> ndvalue \<Rightarrow> real list result" where
  "store Wrot e v =
     (if e < length Wrot then
        (case v of
           Scalar x \<Rightarrow> returns (Wrot[e := x])
         | Vector xs \<Rightarrow>
             (case xs of
                [x] \<Rightarrow> returns (Wrot[e := x])
              | _ \<Rightarrow> raises (ValueError ''setting an array element with a sequence.'')))
      else raises IndexError)"

definition Wrotate_body :: "tensor4 \<Rightarrow> mat \<Rightarrow> nat list list \<Rightarrow> real list \<Rightarrow> nat \<Rightarrow> real list result" where
  "Wrotate_body W4D Basis inds Wrot e =
     bind (item inds e) (\<lambda>q.
     bind (item q 0) (\<lambda>q0. bind (item q 1) (\<lambda>q1. bind (item q 2) (\<lambda>q2. bind (item q 3) (\<lambda>q3.
     bind (Wrotate_element W4D q0 q1 q2 q3 Basis) (\<lambda>v. store Wrot e v))))))"

text \<open>
  \<open>Wrotate(kt, Basis, inds=None)\<close>. The loop header is \<open>for e in range(inds)\<close>, with the
  array \<open>inds\<close> itself as the argument of \<open>range\<close>.
\<close>

definition Wrotate :: "real list \<Rightarrow> mat \<Rightarrow> nat list list option \<Rightarrow> real list result" where
  "Wrotate kt Basis inds_arg =
     (let inds = (case inds_arg of None \<Rightarrow> default_inds | Some given \<Rightarrow> given) in
      bind (np_zeros (length inds) Default_dtype) (\<lambda>Wrot.
      bind (Wcons kt) (\<lambda>W4D.
      bind (py_range (Array_arg inds)) (\<lambda>es.
      for_acc (Wrotate_body W4D Basis inds) Wrot es))))"

text \<open>
  The rotated element the documentation of \<open>Wrotate\<close> describes (Hui et al. 2008): the
  quadruple sum of \<open>Basis[i][p] * Basis[j][q] * Basis[k][r] * Basis[l][s] * W[p][q][r][s]\<close>.
  It is stated here only to be compared with what the source computes.
\<close>

definition rotated_sum :: "tensor4 \<Rightarrow> mat \<Rightarrow> nat \<Rightarrow> nat \<Rightarrow> nat \<Rightarrow> nat \<Rightarrow> real" where
  "rotated_sum W B i j k l =
     (\<Sum>p\<leftarrow>range3. \<Sum>q\<leftarrow>range3. \<Sum>r\<leftarrow>range3. \<Sum>s\<leftarrow>range3.
        B ! i ! p * B ! j ! q * B ! k ! r * B ! l ! s * W ! p ! q ! r ! s)"

definition identity3 :: mat where
  "identity3 = [[1, 0, 0], [0, 1, 0], [0, 0, 1]]"

subsection \<open>Floating-point values with \<open>inf\<close> and \<open>nan\<close>\<close>

text \<open>
  \<open>Num x\<close> is the finite value \<open>x\<close>, \<open>PInf\<close> and \<open>NInf\<close> are \<open>inf\<close> and \<open>-inf\<close>, \<open>NaN\<close> is
  \<open>nan\<close>. The operations are those of IEEE 754 on these values, without rounding:
  \<open>x / 0\<close> is \<open>inf\<close> or \<open>-inf\<close> with the sign of \<open>x\<close> and \<open>nan\<close> for \<open>x = 0\<close>,
  \<open>inf - inf\<close> and \<open>0 * inf\<close> are \<open>nan\<close>, and \<open>nan\<close> propagates.
\<close>

datatype np_float = Num real | PInf | NInf | NaN

instantiation np_float :: "{uminus, plus, minus, times, inverse, abs}"
begin

fun uminus_np_float :: "np_float \<Rightarrow> np_float" where
  "uminus_np_float (Num a) = Num (- a)"
| "uminus_np_float PInf = NInf"
| "uminus_np_float NInf = PInf"
| "uminus_np_float NaN = NaN"

fun plus_np_float :: "np_float \<Rightarrow> np_float \<Rightarrow> np_float" where
  "plus_np_float (Num a) (Num b) = Num (a + b)"
| "plus_np_float (Num a) PInf = PInf"
| "plus_np_float (Num a) NInf = NInf"
| "plus_np_float PInf (Num b) = PInf"
| "plus_np_float NInf (Num b) = NInf"
| "plus_np_float PInf PInf = PInf"
| "plus_np_float NInf NInf = NInf"
| "plus_np_float PInf NInf = NaN"
| "plus_np_float NInf PInf = NaN"
| "plus_np_float NaN y = NaN"
| "plus_np_float x NaN = NaN"

definition minus_np_float :: "np_float \<Rightarrow> np_float \<Rightarrow> np_float" where
  "minus_np_float x y = x + (- y)"

fun times_np_float :: "np_float \<Rightarrow> np_float \<Rightarrow> np_float" where
  "times_np_float (Num a) (Num b) = Num (a * b)"
| "times_np_float (Num a) PInf = (if a > 0 then PInf else if a < 0 then NInf else NaN)"
| "times_np_float (Num a) NInf = (if a > 0 then NInf else if a < 0 then PInf else NaN)"
| "times_np_float PInf (Num b) = (if b > 0 then PInf else if b < 0 then NInf else NaN)"
| "times_np_float NInf (Num b) = (if b > 0 then NInf else if b < 0 then PInf else NaN)"
| "times_np_float PInf PInf = PInf"
| "times_np_float NInf NInf = PInf"
| "times_np_float PInf NInf = NInf"
| "times_np_float NInf PInf = NInf"
| "times_np_float NaN y = NaN"
| "times_np_float x NaN = NaN"

fun divide_np_float :: "np_float \<Rightarrow> np_float \<Rightarrow> np_float" where
  "divide_np_float (Num a) (Num b) =
     (if b \<noteq> 0 then Num (a / b) else if a > 0 then PInf else if a < 0 then NInf else NaN)"
| "divide_np_float (Num a) PInf = Num 0"
| "divide_np_float (Num a) NInf = Num 0"
| "divide_np_float PInf (Num b) = (if b \<ge> 0 then PInf else NInf)"
| "divide_np_float NInf (Num b) = (if b \<ge> 0 then NInf else PInf)"
| "divide_np_float PInf PInf = NaN"
| "divide_np_float NInf NInf = NaN"
| "divide_np_float PInf NInf = NaN"
| "divide_np_float NInf PInf = NaN"
| "divide_np_float NaN y = NaN"
| "divide_np_float x NaN = NaN"

definition inverse_np_float :: "np_float \<Rightarrow> np_float" where
  "inverse_np_float x = divide (Num 1) x"

fun abs_np_float :: "np_float \<Rightarrow> np_float" where
  "abs_np_float (Num a) = Num \<bar>a\<bar>"
| "abs_np_float PInf = PInf"
| "abs_np_float NInf = PInf"
| "abs_np_float NaN = NaN"

instance ..

end

text \<open>\<open>np.sqrt\<close>: the square root of a negative number is \<open>nan\<close>.\<close>

fun np_sqrt :: "np_float \<Rightarrow> np_float" where
  "np_sqrt (Num a) = (if a < 0 then NaN else Num (sqrt a))"
| "np_sqrt PInf = PInf"
| "np_sqrt NInf = NaN"
| "np_sqrt NaN = NaN"

text \<open>\<open>np.max\<close> of two values: \<open>nan\<close> if one of them is \<open>nan\<close>.\<close>

fun np_max2 :: "np_float \<Rightarrow> np_float \<Rightarrow> np_float" where
  "np_max2 (Num a) (Num b) = Num (max a b)"
| "np_max2 NaN y = NaN"
| "np_max2 x NaN = NaN"
| "np_max2 PInf y = PInf"
| "np_max2 x PInf = PInf"
| "np_max2 NInf y = y"
| "np_max2 x NInf = x"

text \<open>\<open>x >= t\<close> for a finite \<open>t\<close>: false for \<open>nan\<close>.\<close>

fun np_ge :: "np_float \<Rightarrow> real \<Rightarrow> bool" where
  "np_ge (Num a) t = (a \<ge> t)"
| "np_ge PInf t = True"
| "np_ge NInf t = False"
| "np_ge NaN t = False"

subsection \<open>Carlson's elliptic integrals: \<open>rfpython\<close> and \<open>rdpython\<close>\<close>

text \<open>
  The machine constants and the tolerance. \<open>lolim\<close> and \<open>uplim\<close>, the bounds of the valid
  argument range of Carlson's algorithm, are computed by both functions and then
  never read: neither function tests its arguments, and neither contains a \<open>raise\<close>.
\<close>

definition d1mach :: "real list" where
  "d1mach = [1.1 * (1 / 10 ^ 308), 8.9 * 10 ^ 307, 0.22204460 * (1 / 10 ^ 15),
             0.4440 * (1 / 10 ^ 15), ln 2]"

definition errtol :: real where
  "errtol = (d1mach ! 2 / 3) powr (1 / 6)"

definition lolim :: real where
  "lolim = 2 / (d1mach ! 1) powr (2 / 3)"

definition uplim :: real where
  "uplim = ((0.10 * errtol) powr (1 / 3) / (d1mach ! 0) powr (1 / 3)) powr 2"

definition c1 :: real where "c1 = 3 / 14"
definition c2 :: real where "c2 = 1 / 6"
definition c3 :: real where "c3 = 9 / 22"
definition c4 :: real where "c4 = 3 / 26"

record rf_vars =
  xn :: np_float
  yn :: np_float
  zn :: np_float
  mu :: np_float
  xndev :: np_float
  yndev :: np_float
  zndev :: np_float
  epslon :: np_float

record rd_vars = rf_vars +
  sigma :: np_float
  power4 :: np_float

text \<open>\<open>np.max([np.abs(a), np.abs(b), np.abs(c)])\<close>.\<close>

definition max_abs3 :: "np_float \<Rightarrow> np_float \<Rightarrow> np_float \<Rightarrow> np_float" where
  "max_abs3 a b c = np_max2 \<bar>a\<bar> (np_max2 \<bar>b\<bar> \<bar>c\<bar>)"

text \<open>
  The variables of \<open>rfpython\<close> on entry to its loop. The arguments are finite NumPy
  values: the function calls \<open>x.copy()\<close>, which a plain Python number does not have.
\<close>

definition rf_init :: "real \<Rightarrow> real \<Rightarrow> real \<Rightarrow> rf_vars" where
  "rf_init x y z =
     (let x0 = Num x; y0 = Num y; z0 = Num z;
          m = (x0 + y0 + z0) / Num 3;
          xd = Num 2 - (m + x0) / m;
          yd = Num 2 - (m + y0) / m;
          zd = Num 2 - (m + z0) / m
      in \<lparr>xn = x0, yn = y0, zn = z0, mu = m, xndev = xd, yndev = yd, zndev = zd,
          epslon = max_abs3 xd yd zd\<rparr>)"

text \<open>One iteration of the duplication loop of \<open>rfpython\<close>.\<close>

definition rf_body :: "rf_vars \<Rightarrow> rf_vars" where
  "rf_body v =
     (let xnroot = np_sqrt (xn v);
          ynroot = np_sqrt (yn v);
          znroot = np_sqrt (zn v);
          lamda = xnroot * (ynroot + znroot) + ynroot * znroot;
          x' = (xn v + lamda) * Num 0.250;
          y' = (yn v + lamda) * Num 0.250;
          z' = (zn v + lamda) * Num 0.250;
          m = (x' + y' + z') / Num 3;
          xd = Num 2 - (m + x') / m;
          yd = Num 2 - (m + y') / m;
          zd = Num 2 - (m + z') / m
      in \<lparr>xn = x', yn = y', zn = z', mu = m, xndev = xd, yndev = yd, zndev = zd,
          epslon = max_abs3 xd yd zd\<rparr>)"

text \<open>
  \<open>while (epslon >= errtol)\<close>: the loop may not return, which is \<open>None\<close>. (In exact
  arithmetic it does not return where the source returns only because its numbers
  underflow, as on the arguments \<open>(0, 0, 1)\<close> of \<open>rdpython\<close>.)
\<close>

partial_function (option) rf_while :: "rf_vars \<Rightarrow> rf_vars option" where
  "rf_while v = (if np_ge (epslon v) errtol then rf_while (rf_body v) else Some v)"

definition rfpython :: "real \<Rightarrow> real \<Rightarrow> real \<Rightarrow> np_float result" where
  "rfpython x y z =
     (case rf_while (rf_init x y z) of
        None \<Rightarrow> diverges
      | Some v \<Rightarrow>
          (let e2 = xndev v * yndev v - zndev v * zndev v;
               e3 = xndev v * yndev v * zndev v;
               s = Num 1 + (Num c1 * e2 - Num 0.10 - Num c2 * e3) * e2 + Num c3 * e3
           in returns (s / np_sqrt (mu v))))"

definition rd_init :: "real \<Rightarrow> real \<Rightarrow> real \<Rightarrow> rd_vars" where
  "rd_init x y z =
     (let x0 = Num x; y0 = Num y; z0 = Num z;
          m = (x0 + y0 + Num 3 * z0) * Num 0.20;
          xd = (m - x0) / m;
          yd = (m - y0) / m;
          zd = (m - z0) / m
      in \<lparr>xn = x0, yn = y0, zn = z0, mu = m, xndev = xd, yndev = yd, zndev = zd,
          epslon = max_abs3 xd yd zd, sigma = Num 0, power4 = Num 1\<rparr>)"

definition rd_body :: "rd_vars \<Rightarrow> rd_vars" where
  "rd_body v =
     (let xnroot = np_sqrt (xn v);
          ynroot = np_sqrt (yn v);
          znroot = np_sqrt (zn v);
          lamda = xnroot * (ynroot + znroot) + ynroot * znroot;
          sg = sigma v + power4 v / (znroot * (zn v + lamda));
          p4 = power4 v * Num 0.250;
          x' = (xn v + lamda) * Num 0.250;
          y' = (yn v + lamda) * Num 0.250;
          z' = (zn v + lamda) * Num 0.250;
          m = (x' + y' + Num 3 * z') * Num 0.20;
          xd = (m - x') / m;
          yd = (m - y') / m;
          zd = (m - z') / m
      in \<lparr>xn = x', yn = y', zn = z', mu = m, xndev = xd, yndev = yd, zndev = zd,
          epslon = max_abs3 xd yd zd, sigma = sg, power4 = p4\<rparr>)"

partial_function (option) rd_while :: "rd_vars \<Rightarrow> rd_vars option" where
  "rd_while v = (if np_ge (epslon v) errtol then rd_while (rd_body v) else Some v)"

definition rdpython :: "real \<Rightarrow> real \<Rightarrow> real \<Rightarrow> np_float result" where
  "rdpython x y z =
     (case rd_while (rd_init x y z) of
        None \<Rightarrow> diverges
      | Some v \<Rightarrow>
          (let ea = xndev v * yndev v;
               eb = zndev v * zndev v;
               ec = ea - eb;
               ed = ea - Num 6 * eb;
               ef = ed + ec + ec;
               s1 = ed * (- Num c1 + Num 0.250 * Num c3 * ed - Num 1.50 * Num c4 * zndev v * ef);
               s2 = zndev v * (Num c2 * ef + zndev v * (- Num c3 * ec + zndev v * Num c4 * ea))
           in returns (Num 3 * sigma v
                       + power4 v * (Num 1 + s1 + s2) / (mu v * np_sqrt (mu v)))))"

subsection \<open>The coefficient functions of the kurtosis metrics\<close>

text \<open>
  \<open>A1111\<close>, \<open>A2233\<close>, \<open>C2222\<close> and \<open>C2233\<close> work on arrays of eigenvalues with boolean
  masks. They are embedded at one voxel, that is, for arrays of one element: a masked
  assignment \<open>X[cond] = ...\<close> under \<open>if np.sum(cond) != 0\<close> is then an assignment under
  \<open>if cond\<close>. \<open>np.logical_and.reduce(abc > 0)\<close> says that all three values are positive,
  \<open>np.logical_or.reduce(abc <= 0)\<close> that one of them is not.
\<close>

definition all_positive :: "real \<Rightarrow> real \<Rightarrow> real \<Rightarrow> bool" where
  "all_positive a b c = (a > 0 \<and> b > 0 \<and> c > 0)"

definition any_nonpositive :: "real \<Rightarrow> real \<Rightarrow> real \<Rightarrow> bool" where
  "any_nonpositive a b c = (a \<le> 0 \<or> b \<le> 0 \<or> c \<le> 0)"

definition alpha :: "real \<Rightarrow> real" where
  "alpha a = 1 / sqrt \<bar>a\<bar> * arctan (sqrt \<bar>a\<bar>)"

text \<open>
  Under the masks of \<open>A2233\<close> no divisor is zero (lemma \<open>A2233_divisors_nonzero\<close>
  below), so its own quotients are quotients of reals; the values of \<open>rfpython\<close> and
  \<open>rdpython\<close> enter as they are returned.
\<close>

definition A2233 :: "real \<Rightarrow> real \<Rightarrow> real \<Rightarrow> np_float result" where
  "A2233 a b c =
     bind (if all_positive a b c \<and> b \<noteq> c then
             (let d = (a + b + c)\<^sup>2 / (3 * (b - c)\<^sup>2);
                  e = (b + c) / sqrt (b * c)
              in bind (rfpython (a / b) (a / c) 1) (\<lambda>f.
                 let g = (2 * a - b - c) / (3 * sqrt (b * c))
                 in bind (rdpython (a / b) (a / c) 1) (\<lambda>h.
                    returns (Num ((1 / 6) * d) * (Num e * f + Num g * h - Num 2)))))
           else returns (Num (1 / 15))) (\<lambda>Aarray1.
     let Aarray2 =
           (if all_positive a b c \<and> (b = c \<and> a \<noteq> b) then
              (let d = (a + 2 * c)\<^sup>2 / (144 * c\<^sup>2 * (a - c)\<^sup>2);
                   e = c * (a + 2 * c);
                   f = a * (a - 4 * c);
                   g = alpha (1 - a / c)
               in Num (d * (e + f * g)))
            else Aarray1)
     in returns (if any_nonpositive a b c then Num 0 else Aarray2))"

text \<open>
  The mask of the general formula of \<open>A1111\<close>, as the source writes it: it tests
  \<open>a != b\<close> and \<open>b != c\<close>, and does not test \<open>a != c\<close>.
\<close>

definition A1111_indexesxcond1 :: "real \<Rightarrow> real \<Rightarrow> real \<Rightarrow> bool" where
  "A1111_indexesxcond1 a b c = (all_positive a b c \<and> (a \<noteq> b \<and> b \<noteq> c))"

text \<open>
  In \<open>A1111\<close> the divisor \<open>18 * (a - b) * (a - c)\<close> of \<open>d\<close> is zero when \<open>a = c\<close>; the
  quotient is then \<open>inf\<close>.
\<close>

definition A1111 :: "real \<Rightarrow> real \<Rightarrow> real \<Rightarrow> np_float result" where
  "A1111 a b c =
     bind (if A1111_indexesxcond1 a b c then
             (let d = Num ((a + b + c)\<^sup>2) / Num (18 * (a - b) * (a - c));
                  e = sqrt (b * c) / a
              in bind (rfpython (a / b) (a / c) 1) (\<lambda>f.
                 let g = (3 * a\<^sup>2 - a * b - a * c - b * c) / (3 * a * sqrt (b * c))
                 in bind (rdpython (a / b) (a / c) 1) (\<lambda>h.
                    returns (d * (Num e * f + Num g * h - Num 1)))))
           else returns (Num (1 / 5))) (\<lambda>Aarray1.
     bind (if all_positive a b c \<and> (a = b \<and> b \<noteq> c) then
             bind (A2233 c a a) (\<lambda>dummy2. returns (Num 3 * dummy2))
           else returns Aarray1) (\<lambda>Aarray2.
     bind (if all_positive a b c \<and> (a = c \<and> a \<noteq> b) then
             bind (A2233 b a a) (\<lambda>dummy3. returns (Num 3 * dummy3))
           else returns Aarray2) (\<lambda>Aarray3.
     returns (if any_nonpositive a b c then Num 0 else Aarray3))))"

definition C2222 :: "real \<Rightarrow> real \<Rightarrow> real \<Rightarrow> real" where
  "C2222 a b c =
     (let Carray0 = 0;
          Carray1 = (if all_positive a b c then (a + 2 * b)\<^sup>2 / (24 * b\<^sup>2) else Carray0);
          Carray2 =
            (if all_positive a b c \<and> b \<noteq> c then
               ((a + b + c)\<^sup>2 / (18 * b * (b - c)\<^sup>2))
                 * (2 * b + (c\<^sup>2 - 3 * b * c) / sqrt (b * c))
             else Carray1)
      in if any_nonpositive a b c then 0 else Carray2)"

definition C2233 :: "real \<Rightarrow> real \<Rightarrow> real \<Rightarrow> real" where
  "C2233 a b c =
     (let Carray0 = 0;
          Carray1 = (if all_positive a b c then (a + 2 * b)\<^sup>2 / (12 * b\<^sup>2) else Carray0);
          Carray2 =
            (if all_positive a b c \<and> b \<noteq> c then
               ((a + b + c)\<^sup>2 / (3 * (b - c)\<^sup>2)) * ((b + c) / sqrt (b * c) - 2)
             else Carray1)
      in if any_nonpositive a b c then 0 else Carray2)"

definition F1m :: "real \<Rightarrow> real \<Rightarrow> real \<Rightarrow> np_float result" where
  "F1m a b c = A1111 a b c"

definition F2m :: "real \<Rightarrow> real \<Rightarrow> real \<Rightarrow> np_float result" where
  "F2m a b c = bind (A2233 a b c) (\<lambda>A. returns (Num 6 * A))"

definition G1m :: "real \<Rightarrow> real \<Rightarrow> real \<Rightarrow> real" where
  "G1m a b c = C2222 a b c"

definition G2m :: "real \<Rightarrow> real \<Rightarrow> real \<Rightarrow> real" where
  "G2m a b c = 6 * C2233 a b c"

text \<open>
  The denominators of the divisions that the statements of each coefficient function
  evaluate, in the order of evaluation, for the branches that the masks select. The
  divisions inside \<open>rfpython\<close> and \<open>rdpython\<close> are not listed; the one inside \<open>alpha\<close> is.
\<close>

definition A2233_divisors :: "real \<Rightarrow> real \<Rightarrow> real \<Rightarrow> real list" where
  "A2233_divisors a b c =
     (if all_positive a b c \<and> b \<noteq> c then
        [3 * (b - c)\<^sup>2, sqrt (b * c), b, c, 3 * sqrt (b * c), b, c]
      else [])
     @ (if all_positive a b c \<and> (b = c \<and> a \<noteq> b) then
          [144 * c\<^sup>2 * (a - c)\<^sup>2, c, sqrt \<bar>1 - a / c\<bar>]
        else [])"

definition A1111_divisors :: "real \<Rightarrow> real \<Rightarrow> real \<Rightarrow> real list" where
  "A1111_divisors a b c =
     (if A1111_indexesxcond1 a b c then
        [18 * (a - b) * (a - c), a, b, c, 3 * a * sqrt (b * c), b, c]
      else [])
     @ (if all_positive a b c \<and> (a = b \<and> b \<noteq> c) then A2233_divisors c a a else [])
     @ (if all_positive a b c \<and> (a = c \<and> a \<noteq> b) then A2233_divisors b a a else [])"

definition C2222_divisors :: "real \<Rightarrow> real \<Rightarrow> real \<Rightarrow> real list" where
  "C2222_divisors a b c =
     (if all_positive a b c then [24 * b\<^sup>2] else [])
     @ (if all_positive a b c \<and> b \<noteq> c then [18 * b * (b - c)\<^sup>2, sqrt (b * c)] else [])"

definition C2233_divisors :: "real \<Rightarrow> real \<Rightarrow> real \<Rightarrow> real list" where
  "C2233_divisors a b c =
     (if all_positive a b c then [12 * b\<^sup>2] else [])
     @ (if all_positive a b c \<and> b \<noteq> c then [3 * (b - c)\<^sup>2, sqrt (b * c)] else [])"

subsection \<open>The kurtosis metrics\<close>

text \<open>
  \<open>radial_kurtosis(evals, Wrotat)\<close> at one voxel: \<open>evals\<close> holds three eigenvalues and
  \<open>Wrotat\<close> six rotated elements. The unpacking reads the positions
  \<open>0, 1, 1, 3, 4, 5\<close> of \<open>Wrotat\<close>; \<open>W_zzzz\<close> is read from position \<open>1\<close>.
\<close>

definition radial_kurtosis :: "real list \<Rightarrow> real list \<Rightarrow> real result" where
  "radial_kurtosis evals Wrotat =
     bind (item Wrotat 0) (\<lambda>W_xxxx. bind (item Wrotat 1) (\<lambda>W_yyyy.
     bind (item Wrotat 1) (\<lambda>W_zzzz. bind (item Wrotat 3) (\<lambda>W_xxyy.
     bind (item Wrotat 4) (\<lambda>W_xxzz. bind (item Wrotat 5) (\<lambda>W_yyzz.
     bind (item evals 0) (\<lambda>l1. bind (item evals 1) (\<lambda>l2. bind (item evals 2) (\<lambda>l3.
     returns (G1m l1 l2 l3 * W_yyyy + G1m l1 l3 l2 * W_zzzz + G2m l1 l2 l3 * W_yyzz))))))))))"

text \<open>
  The formula of the documentation of \<open>radial_kurtosis\<close>, with \<open>W_zzzz\<close> the element at
  position \<open>2\<close>. It is stated only to be compared with what the source computes.
\<close>

definition radial_kurtosis_documented :: "real list \<Rightarrow> real list \<Rightarrow> real" where
  "radial_kurtosis_documented evals Wrotat =
     G1m (evals ! 0) (evals ! 1) (evals ! 2) * Wrotat ! 1
     + G1m (evals ! 0) (evals ! 2) (evals ! 1) * Wrotat ! 2
     + G2m (evals ! 0) (evals ! 1) (evals ! 2) * Wrotat ! 5"

text \<open>
  \<open>split_dki_param\<close> is a stub: whatever its argument, it returns three strings.
\<close>

definition split_dki_param :: "real list \<Rightarrow> string \<times> string \<times> string" where
  "split_dki_param dki_params = (''WIP1'', ''WIP2'', ''WIP3'')"

text \<open>
  \<open>mean_kurtosis(dki_params)\<close>. After the call of \<open>split_dki_param\<close> come six
  allocations \<open>np.zeros(len(kt), 15)\<close>, with \<open>15\<close> in the position of the dtype. The
  statements after the allocations (the loop over the voxels and the computation of
  \<open>MeanKurt\<close>) are the parameter \<open>rest\<close>, so that what is proved of \<open>mean_kurtosis\<close> holds
  whatever those statements do.
\<close>

definition mean_kurtosis ::
  "real list
     \<Rightarrow> (string \<Rightarrow> string \<Rightarrow> string
          \<Rightarrow> real list \<Rightarrow> real list \<Rightarrow> real list \<Rightarrow> real list \<Rightarrow> real list \<Rightarrow> real list
          \<Rightarrow> 'r result)
     \<Rightarrow> 'r result" where
  "mean_kurtosis dki_params rest =
     (case split_dki_param dki_params of (evals, evecs, kt) \<Rightarrow>
        bind (np_zeros (length kt) (Int_object 15)) (\<lambda>Wxxxx.
        bind (np_zeros (length kt) (Int_object 15)) (\<lambda>Wyyyy.
        bind (np_zeros (length kt) (Int_object 15)) (\<lambda>Wzzzz.
        bind (np_zeros (length kt) (Int_object 15)) (\<lambda>Wxxyy.
        bind (np_zeros (length kt) (Int_object 15)) (\<lambda>Wxxzz.
        bind (np_zeros (length kt) (Int_object 15)) (\<lambda>Wyyzz.
        rest evals evecs kt Wxxxx Wyyyy Wzzzz Wxxyy Wxxzz Wyyzz)))))))"

text \<open>
  The last statements of \<open>mean_kurtosis\<close>, at one voxel. The assignment to \<open>MeanKurt\<close>
  ends with its first line, \<open>F1m(...) * Wxxxx\<close>; each of the five lines that follow
  starts with \<open>+\<close> and is an expression statement of its own, evaluated and dropped.
\<close>

definition MeanKurt ::
  "real list \<Rightarrow> real \<Rightarrow> real \<Rightarrow> real \<Rightarrow> real \<Rightarrow> real \<Rightarrow> real \<Rightarrow> np_float result" where
  "MeanKurt evals Wxxxx Wyyyy Wzzzz Wxxyy Wxxzz Wyyzz =
     bind (item evals 0) (\<lambda>l1. bind (item evals 1) (\<lambda>l2. bind (item evals 2) (\<lambda>l3.
     bind (F1m l1 l2 l3) (\<lambda>t1.
     let assigned = t1 * Num Wxxxx in
     bind (F1m l2 l1 l3) (\<lambda>t2.
     bind (F1m l3 l2 l1) (\<lambda>t3.
     bind (F2m l1 l2 l3) (\<lambda>t4.
     bind (F2m l2 l1 l3) (\<lambda>t5.
     bind (F2m l3 l2 l1) (\<lambda>t6.
     returns assigned)))))))))"

text \<open>The six-term sum of the documentation of \<open>mean_kurtosis\<close>, for comparison.\<close>

definition MeanKurt_documented ::
  "real list \<Rightarrow> real \<Rightarrow> real \<Rightarrow> real \<Rightarrow> real \<Rightarrow> real \<Rightarrow> real \<Rightarrow> np_float result" where
  "MeanKurt_documented evals Wxxxx Wyyyy Wzzzz Wxxyy Wxxzz Wyyzz =
     bind (item evals 0) (\<lambda>l1. bind (item evals 1) (\<lambda>l2. bind (item evals 2) (\<lambda>l3.
     bind (F1m l1 l2 l3) (\<lambda>t1.
     bind (F1m l2 l1 l3) (\<lambda>t2.
     bind (F1m l3 l2 l1) (\<lambda>t3.
     bind (F2m l1 l2 l3) (\<lambda>t4.
     bind (F2m l2 l1 l3) (\<lambda>t5.
     bind (F2m l3 l2 l1) (\<lambda>t6.
     returns (t1 * Num Wxxxx + t2 * Num Wyyyy + t3 * Num Wzzzz
              + t4 * Num Wyyzz + t5 * Num Wxxzz + t6 * Num Wxxyy))))))))))"

subsection \<open>The least-squares fits\<close>

text \<open>
  \<open>decompose_tensor\<close> and \<open>from_lower_triangular\<close> are imported from
  \<open>dipy.reconst.dti\<close>, and \<open>pinv\<close> is \<open>np.linalg.pinv\<close>; none of them is defined in this
  module, and they are parameters of the embedding. \<open>decompose_tensor\<close> takes the
  tensor and the floor \<open>min_diffusivity\<close> and returns the (floored) eigenvalues and
  the eigenvectors.
\<close>

record externals =
  pinv :: "mat \<Rightarrow> mat"
  from_lower_triangular :: "real list \<Rightarrow> mat"
  decompose_tensor :: "mat \<Rightarrow> real \<Rightarrow> real list \<times> mat"

text \<open>
  \<open>np.dot\<close> of a matrix and a vector, and of two matrices; the transpose; \<open>np.diag\<close> of
  a vector. A product of operands whose shapes do not fit raises \<open>ValueError\<close>.
\<close>

definition dot :: "real list \<Rightarrow> real list \<Rightarrow> real" where
  "dot u v = sum_list (map2 (*) u v)"

definition np_dot_mv :: "mat \<Rightarrow> real list \<Rightarrow> real list result" where
  "np_dot_mv M v =
     (if list_all (\<lambda>row. length row = length v) M then returns (map (\<lambda>row. dot row v) M)
      else raises (ValueError ''shapes not aligned''))"

definition ncols :: "mat \<Rightarrow> nat" where
  "ncols M = (case M of [] \<Rightarrow> 0 | row # rows \<Rightarrow> length row)"

definition transpose_mat :: "mat \<Rightarrow> mat" where
  "transpose_mat M = map (\<lambda>j. map (\<lambda>row. row ! j) M) [0..<ncols M]"

definition np_dot_mm :: "mat \<Rightarrow> mat \<Rightarrow> mat result" where
  "np_dot_mm M N =
     (if list_all (\<lambda>row. length row = length N) M then
        returns (map (\<lambda>row. map (\<lambda>col. dot row col) (transpose_mat N)) M)
      else raises (ValueError ''shapes not aligned''))"

definition np_diag :: "real list \<Rightarrow> mat" where
  "np_diag v = map (\<lambda>i. map (\<lambda>j. if i = j then v ! i else 0) [0..<length v]) [0..<length v]"

text \<open>\<open>evals.mean(0)\<close>.\<close>

definition mean :: "real list \<Rightarrow> real" where
  "mean xs = sum_list xs / real (length xs)"

text \<open>
  The statements that \<open>_ols_iter\<close> and \<open>_wls_iter\<close> share word for word, from the
  regression solution \<open>result\<close> to the returned vector: \<open>DT_elements = result[:6]\<close> is
  decomposed, \<open>MD_square = (evals.mean(0))**2\<close>, \<open>KT_elements = result[6:21] / MD_square\<close>,
  and the output is \<open>np.concatenate((evals, evecs[0], evecs[1], evecs[2], KT_elements))\<close>.
\<close>

definition dki_params_of :: "externals \<Rightarrow> real list \<Rightarrow> real \<Rightarrow> real list result" where
  "dki_params_of ext result min_diffusivity =
     (let DT_elements = take 6 result;
          (evals, evecs) =
             decompose_tensor ext (from_lower_triangular ext DT_elements) min_diffusivity;
          MD_square = (mean evals)\<^sup>2;
          KT_elements = map (\<lambda>x. x / MD_square) (take 15 (drop 6 result))
      in bind (item evecs 0) (\<lambda>evecs0. bind (item evecs 1) (\<lambda>evecs1.
         bind (item evecs 2) (\<lambda>evecs2.
         returns (evals @ evecs0 @ evecs1 @ evecs2 @ KT_elements)))))"

text \<open>
  The regression solution of \<open>_ols_iter\<close>: the signal is floored at \<open>min_signal\<close>, its
  logarithm is taken, and \<open>result = np.dot(inv_design, log_s)\<close>.
\<close>

definition ols_solution :: "mat \<Rightarrow> real list \<Rightarrow> real \<Rightarrow> real list result" where
  "ols_solution inv_design sig min_signal =
     (let sig1 = map (\<lambda>s. max s min_signal) sig;
          log_s = map ln sig1
      in np_dot_mv inv_design log_s)"

text \<open>
  \<open>_ols_iter(inv_design, sig, min_signal, min_diffusivity)\<close>: the fit of one voxel
  (an identifier cannot start with an underscore here, hence \<open>ols_iter\<close>).
\<close>

definition ols_iter :: "externals \<Rightarrow> mat \<Rightarrow> real list \<Rightarrow> real \<Rightarrow> real \<Rightarrow> real list result" where
  "ols_iter ext inv_design sig min_signal min_diffusivity =
     bind (ols_solution inv_design sig min_signal) (\<lambda>result.
       dki_params_of ext result min_diffusivity)"

text \<open>
  The regression solution of \<open>_wls_iter\<close>: the ordinary solution gives the weights
  \<open>W = np.diag(np.exp(2 * np.dot(A, ols_result)))\<close>, and
  \<open>wls_result = np.dot(pinv(A.T W A), A.T W log_s)\<close>.
\<close>

definition wls_solution :: "externals \<Rightarrow> mat \<Rightarrow> mat \<Rightarrow> real list \<Rightarrow> real \<Rightarrow> real list result" where
  "wls_solution ext design_matrix inv_design sig min_signal =
     (let A = design_matrix;
          sig1 = map (\<lambda>s. max s min_signal) sig;
          log_s = map ln sig1
      in bind (np_dot_mv inv_design log_s) (\<lambda>ols_result.
         bind (np_dot_mv A ols_result) (\<lambda>fitted.
         let W = np_diag (map (\<lambda>y. exp (2 * y)) fitted)
         in bind (np_dot_mm (transpose_mat A) W) (\<lambda>AT_W.
            bind (np_dot_mm AT_W A) (\<lambda>AT_W_A.
            let inv_AT_W_A = pinv ext AT_W_A
            in bind (np_dot_mm (transpose_mat A) W) (\<lambda>AT_W'.
               bind (np_dot_mv AT_W' log_s) (\<lambda>AT_W_LS.
               np_dot_mv inv_AT_W_A AT_W_LS)))))))"

text \<open>\<open>_wls_iter(design_matrix, inv_design, sig, min_signal, min_diffusivity)\<close>.\<close>

definition wls_iter ::
  "externals \<Rightarrow> mat \<Rightarrow> mat \<Rightarrow> real list \<Rightarrow> real \<Rightarrow> real \<Rightarrow> real list result" where
  "wls_iter ext design_matrix inv_design sig min_signal min_diffusivity =
     bind (wls_solution ext design_matrix inv_design sig min_signal) (\<lambda>wls_result.
       dki_params_of ext wls_result min_diffusivity)"

text \<open>
  \<open>design_matrix.min()\<close>: the smallest entry; an array without entries raises
  \<open>ValueError\<close>.
\<close>

definition matrix_min :: "mat \<Rightarrow> real result" where
  "matrix_min M =
     (case concat M of
        [] \<Rightarrow> raises (ValueError ''zero-size array to reduction operation minimum'')
      | x # xs \<Rightarrow> returns (fold min xs x))"

text \<open>
  \<open>dki_params[vox] = row\<close>, for \<open>dki_params\<close> of shape \<open>(N, 27)\<close>: a row of 27 values is
  stored, a row of one value is broadcast, any other row raises \<open>ValueError\<close>.
\<close>

definition store_row :: "real list \<Rightarrow> real list result" where
  "store_row row =
     (if length row = 27 then returns row
      else if length row = 1 then returns (replicate 27 (hd row))
      else raises (ValueError ''could not broadcast input array''))"

definition tol :: real where
  "tol = 1 / 10 ^ 6"

text \<open>
  \<open>ols_fit_dki(design_matrix, data, min_signal)\<close> and \<open>wls_fit_dki\<close>. \<open>data\<close> is given as
  \<open>data_flat\<close>, the list of the signals of the voxels. The test of \<open>min_signal\<close> is the
  first statement after the assignment of \<open>tol\<close>.
\<close>

definition ols_fit_dki :: "externals \<Rightarrow> mat \<Rightarrow> real list list \<Rightarrow> real \<Rightarrow> mat result" where
  "ols_fit_dki ext design_matrix data_flat min_signal =
     (if min_signal \<le> 0 then raises (ValueError ''min_signal must be > 0'')
      else
        bind (matrix_min design_matrix) (\<lambda>m.
        let min_diffusivity = tol / - m;
            inv_design = pinv ext design_matrix
        in for_each (\<lambda>voxel.
             bind (ols_iter ext inv_design voxel min_signal min_diffusivity) store_row)
             data_flat))"

definition wls_fit_dki :: "externals \<Rightarrow> mat \<Rightarrow> real list list \<Rightarrow> real \<Rightarrow> mat result" where
  "wls_fit_dki ext design_matrix data_flat min_signal =
     (if min_signal \<le> 0 then raises (ValueError ''min_signal must be > 0'')
      else
        bind (matrix_min design_matrix) (\<lambda>m.
        let min_diffusivity = tol / - m;
            inv_design = pinv ext design_matrix
        in for_each (\<lambda>voxel.
             bind (wls_iter ext design_matrix inv_design voxel min_signal min_diffusivity)
               store_row)
             data_flat))"

subsection \<open>Example data\<close>

text \<open>
  A protocol of one measurement, used where a statement is instantiated: stand-ins for
  the external functions (a decomposition that always returns the eigenvalues
  \<open>3, 2, 1\<close> with the identity basis), a design matrix of one row, and a matrix of 22
  rows whose first column counts from \<open>0\<close> to \<open>21\<close>.
\<close>

definition counting_column :: mat where
  "counting_column = map (\<lambda>i. [real i]) [0..<22]"

definition counting_matrix :: mat where
  "counting_matrix = map (\<lambda>i. real i # replicate 21 0) [0..<22]"

definition example_design :: mat where
  "example_design = [1 # replicate 21 0]"

definition example_externals :: externals where
  "example_externals =
     \<lparr>pinv = (\<lambda>M. counting_matrix),
      from_lower_triangular = (\<lambda>v. [[v ! 0, v ! 1, v ! 3], [v ! 1, v ! 2, v ! 4], [v ! 3, v ! 4, v ! 5]]),
      decompose_tensor = (\<lambda>T m. ([3, 2, 1], identity3))\<rparr>"

section \<open>Properties\<close>

subsection \<open>Outcomes\<close>

lemma bind_returns [simp]: "bind (returns v) f = f v"
  by (simp add: returns_def)

lemma returns_not_raises [simp]: "returns v \<noteq> raises e" "raises e \<noteq> returns v"
  by (simp_all add: returns_def raises_def)

lemma raises_inject [simp]: "raises e = raises e' \<longleftrightarrow> e = e'"
  by (simp add: raises_def)

lemma returns_inject [simp]: "returns v = returns w \<longleftrightarrow> v = w"
  by (simp add: returns_def)

lemma bind_raises_iff:
  "bind m f = raises e \<longleftrightarrow> m = raises e \<or> (\<exists>v. m = returns v \<and> f v = raises e)"
proof (cases m)
  case None
  then show ?thesis by (simp add: raises_def returns_def)
next
  case (Some r)
  then show ?thesis by (cases r) (auto simp: raises_def returns_def)
qed

lemma did_return_iff: "did_return r \<longleftrightarrow> (\<exists>v. r = returns v)"
  by (cases r rule: did_return.cases) (auto simp: returns_def)

lemma item_ok: "i < length xs \<Longrightarrow> item xs i = returns (xs ! i)"
  by (simp add: item_def)

lemma item_raises: "item xs i = raises e \<Longrightarrow> e = IndexError"
  by (auto simp: item_def split: if_splits)

lemma for_each_raises:
  "for_each f xs = raises e \<Longrightarrow> \<exists>x \<in> set xs. f x = raises e"
  by (induction xs) (auto simp: bind_raises_iff)

subsection \<open>The dense tensor\<close>

lemma replicate3: "replicate 3 x = [x, x, x]"
  by (simp add: numeral_3_eq_3)

text \<open>
  Every key that the loops of \<open>Wcons\<close> form is in the dictionary, and every value of the
  dictionary is the first component: the tensor is constant.
\<close>

lemma Wcons_constant:
  "Wcons (k0 # ks) = returns (replicate 3 (replicate 3 (replicate 3 (replicate 3 k0))))"
  by (simp add: Wcons_def item_def returns_def xyz_def lookup_def indep_ele_def replicate3)

lemma read_back_constant: "read_back (k0 # ks) = returns (replicate 15 k0)"
  by (simp add: read_back_def Wcons_constant replicate3 returns_def default_inds_def
      entry_def item_def eval_nat_numeral)

text \<open>
  Claim C10. For every vector \<open>kt\<close> of 15 kurtosis components, each of the 81 entries
  of the tensor that \<open>Wcons kt\<close> returns is \<open>kt[0]\<close>; the components \<open>kt[1]\<close> to \<open>kt[14]\<close>
  have no influence on the result.
\<close>

theorem Wcons_all_first:
  "length kt = 15 \<Longrightarrow>
   Wcons kt = returns (replicate 3 (replicate 3 (replicate 3 (replicate 3 (kt ! 0)))))"
proof -
  assume len: "length kt = 15"
  then obtain k0 ks where kt: "kt = k0 # ks" by (cases kt) auto
  show ?thesis unfolding kt by (simp add: Wcons_constant)
qed

theorem Wcons_all_first_witness:
  "length [1, 2, 3, 4, 5, 6, 7, 8, 9, 10, 11, 12, 13, 14, 15 :: real] = 15 \<and>
   Wcons [1, 2, 3, 4, 5, 6, 7, 8, 9, 10, 11, 12, 13, 14, 15]
     = returns (replicate 3 (replicate 3 (replicate 3 (replicate 3 1))))"
  using Wcons_all_first [of "[1, 2, 3, 4, 5, 6, 7, 8, 9, 10, 11, 12, 13, 14, 15]"] by simp

text \<open>
  Claim C2. Expanding 15 components with \<open>Wcons\<close> and reading back one representative
  entry per symmetry class should return the 15 components. On the components
  \<open>1, 2, ..., 15\<close> the source returns fifteen times the value \<open>1\<close> instead.
\<close>

theorem read_back_loses_components:
  "read_back [1, 2, 3, 4, 5, 6, 7, 8, 9, 10, 11, 12, 13, 14, 15] = returns (replicate 15 1) \<and>
   read_back [1, 2, 3, 4, 5, 6, 7, 8, 9, 10, 11, 12, 13, 14, 15]
     \<noteq> returns [1, 2, 3, 4, 5, 6, 7, 8, 9, 10, 11, 12, 13, 14, 15]"
  by (simp add: read_back_constant returns_def eval_nat_numeral)

subsection \<open>The rotation\<close>

text \<open>
  \<open>Wrotate\<close> reaches \<open>range(inds)\<close> as soon as \<open>kt\<close> has a first component, and stops
  there, whatever the basis and whether or not \<open>inds\<close> is given.
\<close>

lemma Wrotate_raises: "Wrotate (k0 # ks) Basis inds_arg = raises TypeError"
  by (simp add: Wrotate_def Let_def np_zeros_def Wcons_constant py_range_def returns_def
      raises_def)

text \<open>
  The element function itself, had the loop been entered: on the identity basis it
  raises \<open>TypeError\<close> in its first pass, whatever the tensor, where the documented
  quadruple sum of a constant tensor of value \<open>w\<close> is \<open>w\<close>.
\<close>

lemma Wrotate_element_raises: "Wrotate_element W4D 0 0 0 0 identity3 = raises TypeError"
  by (simp add: Wrotate_element_def Wrotate_element_body_def range3_def identity3_def
      item_def list_times_float_def returns_def raises_def)

lemma rotated_sum_identity:
  "rotated_sum (replicate 3 (replicate 3 (replicate 3 (replicate 3 w)))) identity3 0 0 0 0 = w"
  by (simp add: rotated_sum_def range3_def identity3_def replicate3)

text \<open>
  Claim C3. \<open>Wrotate(kt, B)\<close> with \<open>B\<close> the identity basis and the default index set
  should return the 15 components of \<open>kt\<close>. On the components \<open>1, 2, ..., 15\<close> the source
  raises \<open>TypeError\<close> and returns nothing.
\<close>

theorem Wrotate_identity_raises:
  "Wrotate [1, 2, 3, 4, 5, 6, 7, 8, 9, 10, 11, 12, 13, 14, 15] identity3 None
     = raises TypeError"
  by (rule Wrotate_raises)

subsection \<open>The elliptic integrals\<close>

lemma errtol_pos: "0 < errtol"
  by (simp add: errtol_def d1mach_def)

lemma errtol_not_le_zero: "\<not> errtol \<le> 0"
  using errtol_pos by simp

lemma errtol_less_one: "errtol < 1"
proof -
  have "0 < d1mach ! 2 / 3" "d1mach ! 2 / 3 < 1"
    by (simp_all add: d1mach_def)
  then show ?thesis
    unfolding errtol_def by (simp add: powr01_less_one)
qed

lemma rf_while_exit: "\<not> np_ge (epslon v) errtol \<Longrightarrow> rf_while v = Some v"
  by (subst rf_while.simps) simp

lemma rd_while_exit: "\<not> np_ge (epslon v) errtol \<Longrightarrow> rd_while v = Some v"
  by (subst rd_while.simps) simp

lemma rf_init_ones:
  "rf_init 1 1 1
     = \<lparr>xn = Num 1, yn = Num 1, zn = Num 1, mu = Num 1, xndev = Num 0, yndev = Num 0,
        zndev = Num 0, epslon = Num 0\<rparr>"
  by (simp add: rf_init_def max_abs3_def Let_def minus_np_float_def)

text \<open>
  Claim C9. \<open>rfpython\<close> applied to \<open>(1, 1, 1)\<close> returns \<open>1\<close>: the deviations are zero on
  entry, so the loop returns its initial variables without an iteration, and the
  correction polynomial is \<open>1\<close>.
\<close>

theorem rfpython_ones:
  "rf_while (rf_init 1 1 1) = Some (rf_init 1 1 1) \<and> rfpython 1 1 1 = returns (Num 1)"
  by (simp add: rfpython_def rf_init_ones rf_while_exit errtol_not_le_zero Let_def
      minus_np_float_def)

text \<open>
  Three negative arguments: the deviations are zero on entry, the loop is not
  entered, and the square root of the negative mean makes the result \<open>nan\<close>.
\<close>

lemma rf_init_neg:
  "rf_init (- 1) (- 1) (- 1)
     = \<lparr>xn = Num (- 1), yn = Num (- 1), zn = Num (- 1), mu = Num (- 1), xndev = Num 0,
        yndev = Num 0, zndev = Num 0, epslon = Num 0\<rparr>"
  by (simp add: rf_init_def max_abs3_def Let_def minus_np_float_def)

lemma rd_init_neg:
  "rd_init (- 1) (- 1) (- 1)
     = \<lparr>xn = Num (- 1), yn = Num (- 1), zn = Num (- 1), mu = Num (- 1), xndev = Num 0,
        yndev = Num 0, zndev = Num 0, epslon = Num 0, sigma = Num 0, power4 = Num 1\<rparr>"
  by (simp add: rd_init_def max_abs3_def Let_def minus_np_float_def)

text \<open>
  Three zero arguments: the mean is zero, the deviations are \<open>0 / 0 = nan\<close>, the loop
  test \<open>nan >= errtol\<close> is false, and the result is \<open>nan\<close>.
\<close>

lemma rf_init_zeros:
  "rf_init 0 0 0
     = \<lparr>xn = Num 0, yn = Num 0, zn = Num 0, mu = Num 0, xndev = NaN, yndev = NaN,
        zndev = NaN, epslon = NaN\<rparr>"
  by (simp add: rf_init_def max_abs3_def Let_def minus_np_float_def)

lemma rfpython_zeros: "rfpython 0 0 0 = returns NaN"
  by (simp add: rfpython_def rf_init_zeros rf_while_exit Let_def minus_np_float_def)

text \<open>
  One negative argument among positive ones: the loop is entered, the square root of
  the negative argument turns every variable into \<open>nan\<close>, the loop is left after that
  iteration, and the result is \<open>nan\<close>.
\<close>

lemma rf_init_mixed:
  "rf_init (- 1) 1 1
     = \<lparr>xn = Num (- 1), yn = Num 1, zn = Num 1, mu = Num (1 / 3), xndev = Num 4,
        yndev = Num (- 2), zndev = Num (- 2), epslon = Num 4\<rparr>"
  by (simp add: rf_init_def max_abs3_def Let_def minus_np_float_def)

lemma rf_body_mixed:
  "rf_body \<lparr>xn = Num (- 1), yn = Num 1, zn = Num 1, mu = Num (1 / 3), xndev = Num 4,
        yndev = Num (- 2), zndev = Num (- 2), epslon = Num 4\<rparr>
     = \<lparr>xn = NaN, yn = NaN, zn = NaN, mu = NaN, xndev = NaN, yndev = NaN, zndev = NaN,
        epslon = NaN\<rparr>"
  by (simp add: rf_body_def max_abs3_def Let_def minus_np_float_def)

lemma rf_while_mixed:
  "rf_while (rf_init (- 1) 1 1)
     = Some \<lparr>xn = NaN, yn = NaN, zn = NaN, mu = NaN, xndev = NaN, yndev = NaN, zndev = NaN,
        epslon = NaN\<rparr>"
proof -
  have enter: "errtol \<le> 4"
    using errtol_less_one by linarith
  show ?thesis
    unfolding rf_init_mixed
    by (subst rf_while.simps) (simp add: enter rf_body_mixed rf_while_exit)
qed

lemma rfpython_mixed: "rfpython (- 1) 1 1 = returns NaN"
  by (simp add: rfpython_def rf_while_mixed Let_def minus_np_float_def)

text \<open>
  Claim C4. The evaluators should fail with a \<open>DomainError\<close> on invalid arguments, and
  a negative argument is invalid for both. On the arguments \<open>(-1, -1, -1)\<close> neither
  \<open>rfpython\<close> nor \<open>rdpython\<close> fails: each returns \<open>nan\<close>.
\<close>

theorem carlson_negative_arguments_return_nan:
  "rfpython (- 1) (- 1) (- 1) = returns NaN \<and> rdpython (- 1) (- 1) (- 1) = returns NaN"
  by (simp add: rfpython_def rdpython_def rf_init_neg rd_init_neg rf_while_exit rd_while_exit
      errtol_not_le_zero Let_def minus_np_float_def)

subsection \<open>The coefficient functions\<close>

lemma A2233_isotropic: "0 < a \<Longrightarrow> A2233 a a a = returns (Num (1 / 15))"
  by (simp add: A2233_def all_positive_def any_nonpositive_def returns_def Let_def)

lemma A1111_isotropic: "0 < a \<Longrightarrow> A1111 a a a = returns (Num (1 / 5))"
  by (simp add: A1111_def A1111_indexesxcond1_def all_positive_def any_nonpositive_def
      returns_def Let_def)

text \<open>
  With \<open>b = c\<close> and \<open>a\<close> different, no mask of \<open>A1111\<close> holds, and the result is the
  initial value \<open>1/5\<close> of the isotropic case.
\<close>

lemma A1111_falls_through: "A1111 2 1 1 = returns (Num (1 / 5))"
  by (simp add: A1111_def A1111_indexesxcond1_def all_positive_def any_nonpositive_def
      returns_def Let_def)

lemma A2233_divisors_nonzero: "all_positive a b c \<Longrightarrow> 0 \<notin> set (A2233_divisors a b c)"
  by (auto simp: A2233_divisors_def all_positive_def)

lemma C2222_divisors_nonzero: "all_positive a b c \<Longrightarrow> 0 \<notin> set (C2222_divisors a b c)"
  by (auto simp: C2222_divisors_def all_positive_def)

lemma C2233_divisors_nonzero: "all_positive a b c \<Longrightarrow> 0 \<notin> set (C2233_divisors a b c)"
  by (auto simp: C2233_divisors_def all_positive_def)

text \<open>
  For positive eigenvalues, \<open>A1111\<close> divides by zero exactly when \<open>a = c\<close> and \<open>b\<close> is
  different: the case that the mask of the general formula does not exclude.
\<close>

lemma A1111_divisors_zero_iff:
  "all_positive a b c \<Longrightarrow> (0 \<in> set (A1111_divisors a b c)) = (a = c \<and> a \<noteq> b)"
  using A2233_divisors_nonzero [of b a a] A2233_divisors_nonzero [of c a a]
  by (auto simp: A1111_divisors_def A1111_indexesxcond1_def all_positive_def)

text \<open>
  Claim C8. For positive eigenvalues of which two are equal, the coefficient
  functions should never evaluate a division by zero. For \<open>A1111(1, 2, 1)\<close> the mask of
  the general formula holds, and the first division of that branch has the
  denominator \<open>18 * (a - b) * (a - c) = 0\<close>.
\<close>

theorem A1111_divides_by_zero:
  "A1111_indexesxcond1 1 2 1 \<and> 18 * ((1::real) - 2) * (1 - 1) = 0 \<and>
   0 \<in> set (A1111_divisors 1 2 1)"
  by (simp add: A1111_indexesxcond1_def A1111_divisors_def all_positive_def)

subsection \<open>The metrics\<close>

lemma G1m_isotropic: "G1m 1 1 1 = 3 / 8"
  by (simp add: G1m_def C2222_def all_positive_def any_nonpositive_def Let_def)

lemma G2m_isotropic: "G2m 1 1 1 = 9 / 2"
  by (simp add: G2m_def C2233_def all_positive_def any_nonpositive_def Let_def)

text \<open>What \<open>radial_kurtosis\<close> computes: the element at position \<open>1\<close> is used twice.\<close>

lemma radial_kurtosis_code:
  "radial_kurtosis [l1, l2, l3] [w0, w1, w2, w3, w4, w5]
     = returns (G1m l1 l2 l3 * w1 + G1m l1 l3 l2 * w1 + G2m l1 l2 l3 * w5)"
  by (simp add: radial_kurtosis_def item_def returns_def)

text \<open>
  Claim C5. \<open>radial_kurtosis\<close> should apply \<open>G1(l1, l3, l2)\<close> to the element \<open>Wzzzz\<close> at
  position 2. For the eigenvalues \<open>(1, 1, 1)\<close> and the elements \<open>(0, 0, 1, 0, 0, 0)\<close> the
  documented formula gives \<open>3/8\<close>, and the source returns \<open>0\<close>.
\<close>

theorem radial_kurtosis_reads_wrong_element:
  "radial_kurtosis [1, 1, 1] [0, 0, 1, 0, 0, 0] = returns 0 \<and>
   radial_kurtosis_documented [1, 1, 1] [0, 0, 1, 0, 0, 0] = 3 / 8"
  by (simp add: radial_kurtosis_code radial_kurtosis_documented_def G1m_isotropic
      G2m_isotropic)

text \<open>
  The last statements of \<open>mean_kurtosis\<close> on isotropic eigenvalues: the value assigned
  is the first term alone, where the documented sum has six terms.
\<close>

lemma MeanKurt_isotropic:
  "MeanKurt [1, 1, 1] Wxxxx Wyyyy Wzzzz Wxxyy Wxxzz Wyyzz = returns (Num (1 / 5 * Wxxxx))"
  by (simp add: MeanKurt_def item_def F1m_def F2m_def A1111_isotropic A2233_isotropic
      returns_def Let_def)

lemma MeanKurt_documented_isotropic:
  "MeanKurt_documented [1, 1, 1] Wxxxx Wyyyy Wzzzz Wxxyy Wxxzz Wyyzz
     = returns (Num (1 / 5 * Wxxxx + 1 / 5 * Wyyyy + 1 / 5 * Wzzzz
                     + 2 / 5 * Wyyzz + 2 / 5 * Wxxzz + 2 / 5 * Wxxyy))"
  by (simp add: MeanKurt_documented_def item_def F1m_def F2m_def A1111_isotropic
      A2233_isotropic returns_def Let_def)

text \<open>
  Claim C1. \<open>mean_kurtosis\<close> should return the six-term sum for every \<open>dki_params\<close>.
  For every \<open>dki_params\<close>, and whatever the statements after the allocations do, the
  source raises \<open>TypeError\<close> at the first allocation and returns nothing.
\<close>

theorem mean_kurtosis_raises: "mean_kurtosis dki_params rest = raises TypeError"
  by (simp add: mean_kurtosis_def split_dki_param_def np_zeros_def raises_def)

subsection \<open>The fits\<close>

lemma np_dot_mv_raises: "np_dot_mv M v = raises e \<Longrightarrow> e = ValueError ''shapes not aligned''"
  by (auto simp: np_dot_mv_def split: if_splits)

lemma np_dot_mm_raises: "np_dot_mm M N = raises e \<Longrightarrow> e = ValueError ''shapes not aligned''"
  by (auto simp: np_dot_mm_def split: if_splits)

lemma ols_solution_raises:
  "ols_solution inv_design sig min_signal = raises e \<Longrightarrow> e = ValueError ''shapes not aligned''"
  by (auto simp: ols_solution_def Let_def dest: np_dot_mv_raises)

lemma wls_solution_raises:
  "wls_solution ext A inv_design sig min_signal = raises e \<Longrightarrow>
     e = ValueError ''shapes not aligned''"
  by (auto simp: wls_solution_def Let_def bind_raises_iff
      dest: np_dot_mv_raises np_dot_mm_raises)

lemma dki_params_of_raises: "dki_params_of ext result md = raises e \<Longrightarrow> e = IndexError"
  by (cases "decompose_tensor ext (from_lower_triangular ext (take 6 result)) md")
     (auto simp: dki_params_of_def Let_def bind_raises_iff dest: item_raises)

lemma ols_iter_raises:
  "ols_iter ext inv_design sig min_signal md = raises e \<Longrightarrow>
     e = ValueError ''shapes not aligned'' \<or> e = IndexError"
  by (auto simp: ols_iter_def bind_raises_iff dest: ols_solution_raises dki_params_of_raises)

lemma wls_iter_raises:
  "wls_iter ext A inv_design sig min_signal md = raises e \<Longrightarrow>
     e = ValueError ''shapes not aligned'' \<or> e = IndexError"
  by (auto simp: wls_iter_def bind_raises_iff dest: wls_solution_raises dki_params_of_raises)

lemma store_row_raises:
  "store_row row = raises e \<Longrightarrow> e = ValueError ''could not broadcast input array''"
  by (auto simp: store_row_def split: if_splits)

lemma matrix_min_raises:
  "matrix_min M = raises e \<Longrightarrow>
     e = ValueError ''zero-size array to reduction operation minimum''"
  by (auto simp: matrix_min_def split: list.splits)

lemma ols_fit_guard:
  "(ols_fit_dki ext design_matrix data_flat min_signal
      = raises (ValueError ''min_signal must be > 0'')) = (min_signal \<le> 0)"
  by (auto simp: ols_fit_dki_def Let_def bind_raises_iff
      dest!: matrix_min_raises for_each_raises ols_iter_raises store_row_raises)

lemma wls_fit_guard:
  "(wls_fit_dki ext design_matrix data_flat min_signal
      = raises (ValueError ''min_signal must be > 0'')) = (min_signal \<le> 0)"
  by (auto simp: wls_fit_dki_def Let_def bind_raises_iff
      dest!: matrix_min_raises for_each_raises wls_iter_raises store_row_raises)

text \<open>
  Claim C6. For every \<open>min_signal \<le> 0\<close>, \<open>ols_fit_dki\<close> and \<open>wls_fit_dki\<close> fail with the
  \<open>ValueError\<close> of the test of \<open>min_signal\<close>, whatever the design matrix, the data and
  the external functions are, so before any voxel is fitted; for every
  \<open>min_signal > 0\<close> they do not fail with it.
\<close>

theorem min_signal_guard:
  "(ols_fit_dki ext design_matrix data_flat min_signal
      = raises (ValueError ''min_signal must be > 0'')) = (min_signal \<le> 0) \<and>
   (wls_fit_dki ext design_matrix data_flat min_signal
      = raises (ValueError ''min_signal must be > 0'')) = (min_signal \<le> 0)"
  by (simp add: ols_fit_guard wls_fit_guard)

theorem min_signal_guard_witness:
  "ols_fit_dki example_externals example_design [[exp 1]] 0
     = raises (ValueError ''min_signal must be > 0'') \<and>
   wls_fit_dki example_externals example_design [[exp 1]] 0
     = raises (ValueError ''min_signal must be > 0'') \<and>
   ols_fit_dki example_externals example_design [[exp 1]] 1
     \<noteq> raises (ValueError ''min_signal must be > 0'') \<and>
   wls_fit_dki example_externals example_design [[exp 1]] 1
     \<noteq> raises (ValueError ''min_signal must be > 0'')"
  using min_signal_guard [of example_externals example_design "[[exp 1]]" 0]
    min_signal_guard [of example_externals example_design "[[exp 1]]" 1]
  by simp

lemma dki_params_of_returns:
  assumes "decompose_tensor ext (from_lower_triangular ext (take 6 result)) md
             = (evals, evecs)"
    and "length evecs = 3"
  shows "dki_params_of ext result md
    = returns (evals @ evecs ! 0 @ evecs ! 1 @ evecs ! 2
               @ map (\<lambda>x. x / (mean evals)\<^sup>2) (take 15 (drop 6 result)))"
  using assms by (simp add: dki_params_of_def Let_def item_ok)

lemma rows3:
  "length evecs = 3 \<Longrightarrow> list_all (\<lambda>row. length row = 3) evecs \<Longrightarrow>
   length (evecs ! 0) = 3 \<and> length (evecs ! 1) = 3 \<and> length (evecs ! 2) = 3"
  by (simp add: list_all_length)

text \<open>The example protocol, evaluated.\<close>

lemma log_s_example: "map ln (map (\<lambda>s. max s 1) [exp 1]) = [1 :: real]"
  by (simp add: max_def)

lemma weights_example: "np_diag (map (\<lambda>y. exp (2 * y)) [0]) = [[1]]"
  by (simp add: np_diag_def)

lemma ols_result_example: "np_dot_mv counting_column [1] = returns (map real [0..<22])"
  by code_simp

lemma fitted_example: "np_dot_mv example_design (map real [0..<22]) = returns [0]"
  by code_simp

lemma AT_W_example:
  "np_dot_mm (transpose_mat example_design) [[1]]
     = returns (map (\<lambda>x. [x]) (1 # replicate 21 0))"
  by code_simp

lemma AT_W_A_example:
  "did_return (np_dot_mm (map (\<lambda>x. [x]) (1 # replicate 21 0)) example_design)"
  by code_simp

lemma AT_W_LS_example:
  "np_dot_mv (map (\<lambda>x. [x]) (1 # replicate 21 0)) [1] = returns (1 # replicate 21 0)"
  by code_simp

lemma wls_result_example:
  "np_dot_mv counting_matrix (1 # replicate 21 0) = returns (map real [0..<22])"
  by code_simp

lemma ols_solution_example:
  "ols_solution counting_column [exp 1] 1 = returns (map real [0..<22])"
  unfolding ols_solution_def Let_def by (simp only: log_s_example ols_result_example)

lemma wls_solution_example:
  "wls_solution example_externals example_design counting_column [exp 1] 1
     = returns (map real [0..<22])"
proof -
  obtain X where X:
    "np_dot_mm (map (\<lambda>x. [x]) (1 # replicate 21 0)) example_design = returns X"
    using AT_W_A_example by (auto simp: did_return_iff)
  have p: "pinv example_externals X = counting_matrix"
    by (simp add: example_externals_def)
  show ?thesis
    unfolding wls_solution_def Let_def
    by (simp only: log_s_example weights_example ols_result_example fitted_example
        AT_W_example AT_W_LS_example wls_result_example X p bind_returns)
qed

text \<open>
  Claim C7. In the fit of a voxel, ordinary and weighted alike, the kurtosis
  coefficients of the output (its entries from position 12 on, after the three
  eigenvalues and the three eigenvectors) are the entries at positions 6 to 20 of the
  regression solution, each divided by the square of the mean of the three
  eigenvalues that the decomposition of the fitted tensor returns.
\<close>

theorem kurtosis_coefficients_normalised:
  assumes dec: "decompose_tensor ext (from_lower_triangular ext (take 6 result)) min_diffusivity
                  = (evals, evecs)"
    and ev: "length evals = 3"
    and vecs: "length evecs = 3" "list_all (\<lambda>row. length row = 3) evecs"
  shows "(ols_solution inv_design sig min_signal = returns result \<longrightarrow>
            (\<exists>out. ols_iter ext inv_design sig min_signal min_diffusivity = returns out \<and>
                   drop 12 out = map (\<lambda>x. x / (mean evals)\<^sup>2) (take 15 (drop 6 result))))
       \<and> (wls_solution ext design_matrix inv_design sig min_signal = returns result \<longrightarrow>
            (\<exists>out. wls_iter ext design_matrix inv_design sig min_signal min_diffusivity
                     = returns out \<and>
                   drop 12 out = map (\<lambda>x. x / (mean evals)\<^sup>2) (take 15 (drop 6 result))))"
proof -
  note out = dki_params_of_returns [OF dec vecs(1)]
  note rows = rows3 [OF vecs]
  show ?thesis
    unfolding ols_iter_def wls_iter_def using ev rows by (auto simp: out)
qed

theorem kurtosis_coefficients_normalised_witness:
  "ols_solution counting_column [exp 1] 1 = returns (map real [0..<22]) \<and>
   wls_solution example_externals example_design counting_column [exp 1] 1
     = returns (map real [0..<22]) \<and>
   (\<exists>out. ols_iter example_externals counting_column [exp 1] 1 1 = returns out \<and>
      drop 12 out
        = map (\<lambda>x. x / (mean [3, 2, 1])\<^sup>2) (take 15 (drop 6 (map real [0..<22])))) \<and>
   (\<exists>out. wls_iter example_externals example_design counting_column [exp 1] 1 1
             = returns out \<and>
      drop 12 out
        = map (\<lambda>x. x / (mean [3, 2, 1])\<^sup>2) (take 15 (drop 6 (map real [0..<22]))))"
  using kurtosis_coefficients_normalised [of example_externals "map real [0..<22]" 1
      "[3, 2, 1]" identity3 counting_column "[exp 1]" 1 example_design]
    ols_solution_example wls_solution_example
  by (simp add: example_externals_def identity3_def)

end
